theory Spec2Isabelle
  imports Main
begin

section \<open>The pirate relay bot (onlyhw.py): data model\<close>

text \<open>
  The program is a chat bot: three command handlers (\<open>/start\<close>, \<open>/tokens\<close>, \<open>/clean\<close>)
  and a default handler for free text, all working on one process-wide dictionary
  \<open>user_contexts\<close>, and one call to a completion API per accepted free-text message.

  A Python \<open>str\<close> is modelled as the list of its Unicode code points, so that the
  Cyrillic literals of the source are the very values of the model and \<open>length\<close> counts
  what Python's \<open>len\<close> counts. The role names of a turn (\<open>"system"\<close>, \<open>"user"\<close>,
  \<open>"assistant"\<close>) are ASCII literals and are kept as HOL strings.
\<close>

type_synonym pystr = "nat list"

text \<open>
  A turn is the dictionary \<open>{"role": r, "content": c}\<close> of the source. A session is the
  dictionary \<open>{"context": [...], "tokens": n}\<close>; its two keys are the fields \<open>ctxt\<close>
  (the source's \<open>"context"\<close>, renamed because \<open>context\<close> is a keyword of Isabelle) and
  \<open>tokens\<close>. Python integers are unbounded: \<open>int\<close>.
\<close>

record turn =
  role :: string
  content :: pystr

record session =
  ctxt :: "turn list"
  tokens :: int

type_synonym user_contexts = "int \<rightharpoonup> session"

text \<open>
  An incoming message: \<open>message.from_user\<close> is optional on the platform (a message may
  have no sender), and the handlers read \<open>message.from_user.id\<close> without a check, which
  raises \<open>AttributeError\<close> on \<open>None\<close>. \<open>from_user\<close> holds the sender's id when there is a
  sender. \<open>message_text\<close> is \<open>message.text\<close> (\<open>text\<close> is a keyword of Isabelle).
\<close>

record message =
  from_user :: "int option"
  message_text :: pystr

text \<open>
  Exceptions are identified by their class. The classes are those the handlers can
  meet: Python's built-in ones raised by the source's own attribute, index and key
  accesses, the completion client's (package \<open>openai\<close>, where \<open>RateLimitError\<close> and
  \<open>AuthenticationError\<close> derive from \<open>APIStatusError\<close>, which derives from \<open>APIError\<close>),
  and the messaging platform's error. \<open>mro\<close> lists a class and its ancestors up to
  \<open>Exception\<close>; an \<open>except C\<close> clause matches an exception of class \<open>e\<close> exactly when
  \<open>issubclass e C\<close>.
\<close>

datatype exc_class =
    Exception
  | AttributeError
  | LookupError
  | IndexError
  | KeyError
  | OpenAIError
  | APIError
  | APIConnectionError
  | APIStatusError
  | RateLimitError
  | AuthenticationError
  | TelegramAPIError

fun mro :: "exc_class \<Rightarrow> exc_class list" where
  "mro Exception = [Exception]"
| "mro AttributeError = [AttributeError, Exception]"
| "mro LookupError = [LookupError, Exception]"
| "mro IndexError = [IndexError, LookupError, Exception]"
| "mro KeyError = [KeyError, LookupError, Exception]"
| "mro OpenAIError = [OpenAIError, Exception]"
| "mro APIError = [APIError, OpenAIError, Exception]"
| "mro APIConnectionError = [APIConnectionError, APIError, OpenAIError, Exception]"
| "mro APIStatusError = [APIStatusError, APIError, OpenAIError, Exception]"
| "mro RateLimitError = [RateLimitError, APIStatusError, APIError, OpenAIError, Exception]"
| "mro AuthenticationError =
     [AuthenticationError, APIStatusError, APIError, OpenAIError, Exception]"
| "mro TelegramAPIError = [TelegramAPIError, Exception]"

definition issubclass :: "exc_class \<Rightarrow> exc_class \<Rightarrow> bool" where
  "issubclass e c = (c \<in> set (mro e))"

text \<open>
  The completion response, as far as the source reads it: \<open>response.choices[i].message.content\<close>
  for each choice, and \<open>response.usage.total_tokens\<close>, where \<open>usage\<close> is optional in the
  client's response type.
\<close>

record completion =
  choices :: "pystr list"
  usage :: "int option"

text \<open>
  The world outside the process: what the completion API answers to a request (the list
  of turns sent), and whether the platform accepts a reply (\<open>None\<close>) or the sending
  raises. The observable effects of a handler are the requests it made and the replies
  that were delivered, in order. Logging has no influence on state or replies and is
  left out.
\<close>

record env =
  api :: "turn list \<Rightarrow> exc_class + completion"
  send :: "pystr \<Rightarrow> exc_class option"

datatype effect = ApiCall "turn list" | Reply pystr

record outcome =
  state :: user_contexts
  trace :: "effect list"
  raised :: "exc_class option"

section \<open>The string literals of the source\<close>

definition greeting_msg :: pystr where
  \<comment> \<open>line 52: the greeting sent by /start\<close>
  "greeting_msg = [1055, 1088, 1080, 1074, 1077, 1090, 33, 32, 1071, 32, 1073, 1086, 1090, 45,
     1087, 1080, 1088, 1072, 1090, 46, 32, 1063, 1077, 1084, 32, 1084, 1086, 1075, 1091, 32,
     1087, 1086, 1084, 1086, 1095, 1100, 63]"

definition tokens_reset_msg :: pystr where
  \<comment> \<open>line 66: the acknowledgment of /tokens (budget refilled to 1000)\<close>
  "tokens_reset_msg = [1042, 1072, 1096, 1080, 32, 1090, 1086, 1082, 1077, 1085, 1099, 32,
     1087, 1086, 1087, 1086, 1083, 1085, 1077, 1085, 1099, 32, 1076, 1086, 32, 49, 48, 48,
     48, 46]"

definition user_not_found_msg :: pystr where
  \<comment> \<open>line 69: the error reply of /tokens and /clean: user not found\<close>
  "user_not_found_msg = [1054, 1096, 1080, 1073, 1082, 1072, 58, 32, 1087, 1086, 1083, 1100,
     1079, 1086, 1074, 1072, 1090, 1077, 1083, 1100, 32, 1085, 1077, 32, 1085, 1072, 1081,
     1076, 1077, 1085, 46]"

definition context_cleared_msg :: pystr where
  \<comment> \<open>line 83: the acknowledgment of /clean (context cleared)\<close>
  "context_cleared_msg = [1050, 1086, 1085, 1090, 1077, 1082, 1089, 1090, 32, 1086, 1095,
     1080, 1097, 1077, 1085, 46]"

definition out_of_tokens_msg :: pystr where
  \<comment> \<open>line 100: the reply to a blocked message: out of tokens, use /tokens\<close>
  "out_of_tokens_msg = [1059, 32, 1074, 1072, 1089, 32, 1079, 1072, 1082, 1086, 1085, 1095,
     1080, 1083, 1080, 1089, 1100, 32, 1090, 1086, 1082, 1077, 1085, 1099, 46, 32, 1048,
     1089, 1087, 1086, 1083, 1100, 1079, 1091, 1081, 1090, 1077, 32, 47, 116, 111, 107, 101,
     110, 115, 32, 1076, 1083, 1103, 32, 1087, 1086, 1087, 1086, 1083, 1085, 1077, 1085,
     1080, 1103, 46]"

definition persona :: pystr where
  \<comment> \<open>line 118: the content of the system turn that prefixes every request (the pirate persona)\<close>
  "persona = [1058, 1099, 32, 45, 32, 1073, 1086, 1090, 45, 1087, 1080, 1088, 1072, 1090, 46,
     32, 1054, 1090, 1074, 1077, 1095, 1072, 1081, 32, 1082, 1072, 1082, 32, 1087, 1080,
     1088, 1072, 1090, 46]"

definition api_error_msg :: pystr where
  \<comment> \<open>line 135: the apology of the APIError clause\<close>
  "api_error_msg = [1048, 1079, 1074, 1080, 1085, 1080, 1090, 1077, 44, 32, 1087, 1088, 1086,
     1080, 1079, 1086, 1096, 1083, 1072, 32, 1086, 1096, 1080, 1073, 1082, 1072, 32, 1087,
     1088, 1080, 32, 1086, 1073, 1088, 1072, 1097, 1077, 1085, 1080, 1080, 32, 1082, 32, 65,
     80, 73, 46, 32, 1055, 1086, 1087, 1088, 1086, 1073, 1091, 1081, 1090, 1077, 32, 1087,
     1086, 1079, 1078, 1077, 46]"

definition rate_limit_msg :: pystr where
  \<comment> \<open>line 138: the apology of the RateLimitError clause\<close>
  "rate_limit_msg = [1048, 1079, 1074, 1080, 1085, 1080, 1090, 1077, 44, 32, 1076, 1086, 1089,
     1090, 1080, 1075, 1085, 1091, 1090, 32, 1083, 1080, 1084, 1080, 1090, 32, 1079, 1072,
     1087, 1088, 1086, 1089, 1086, 1074, 46, 32, 1055, 1086, 1087, 1088, 1086, 1073, 1091,
     1081, 1090, 1077, 32, 1087, 1086, 1079, 1078, 1077, 46]"

definition auth_error_msg :: pystr where
  \<comment> \<open>line 141: the apology of the AuthenticationError clause\<close>
  "auth_error_msg = [1048, 1079, 1074, 1080, 1085, 1080, 1090, 1077, 44, 32, 1087, 1088, 1086,
     1080, 1079, 1086, 1096, 1083, 1072, 32, 1086, 1096, 1080, 1073, 1082, 1072, 32, 1072,
     1091, 1090, 1077, 1085, 1090, 1080, 1092, 1080, 1082, 1072, 1094, 1080, 1080, 46, 32,
     1054, 1073, 1088, 1072, 1090, 1080, 1090, 1077, 1089, 1100, 32, 1082, 32, 1072, 1076,
     1084, 1080, 1085, 1080, 1089, 1090, 1088, 1072, 1090, 1086, 1088, 1091, 46]"

definition unexpected_msg :: pystr where
  \<comment> \<open>line 144: the apology of the final Exception clause of generate_response\<close>
  "unexpected_msg = [1048, 1079, 1074, 1080, 1085, 1080, 1090, 1077, 44, 32, 1087, 1088, 1086,
     1080, 1079, 1086, 1096, 1083, 1072, 32, 1085, 1077, 1086, 1078, 1080, 1076, 1072, 1085,
     1085, 1072, 1103, 32, 1086, 1096, 1080, 1073, 1082, 1072, 46, 32, 1055, 1086, 1087,
     1088, 1086, 1073, 1091, 1081, 1090, 1077, 32, 1087, 1086, 1079, 1078, 1077, 46]"

section \<open>The handlers\<close>

text \<open>
  \<open>await message.reply(t)\<close>: the reply is delivered, or the call raises and nothing is
  delivered.
\<close>

definition reply :: "env \<Rightarrow> pystr \<Rightarrow> exc_class option \<times> effect list" where
  "reply env t = (case send env t of None \<Rightarrow> (None, [Reply t]) | Some e \<Rightarrow> (Some e, []))"

text \<open>
  The clause \<open>except Exception as e: logger.error(...)\<close> that closes every handler: an
  exception it matches ends there, any other leaves the handler.
\<close>

definition except_Exception :: "exc_class \<Rightarrow> exc_class option" where
  "except_Exception e = (if issubclass e Exception then None else Some e)"

definition catch :: "exc_class option \<Rightarrow> exc_class option" where
  "catch r = (case r of None \<Rightarrow> None | Some e \<Rightarrow> except_Exception e)"

definition new_session :: session where
  "new_session = \<lparr>ctxt = [], tokens = 1000\<rparr>"

definition start_command :: "env \<Rightarrow> user_contexts \<Rightarrow> message \<Rightarrow> outcome" where
  "start_command env ucs m =
     (case from_user m of
        None \<Rightarrow> \<lparr>state = ucs, trace = [], raised = except_Exception AttributeError\<rparr>
      | Some user_id \<Rightarrow>
          (let ucs' = (case ucs user_id of
                         None \<Rightarrow> ucs(user_id \<mapsto> new_session)
                       | Some s \<Rightarrow> ucs);
               (r, tr) = reply env greeting_msg
           in \<lparr>state = ucs', trace = tr, raised = catch r\<rparr>))"

definition tokens_command :: "env \<Rightarrow> user_contexts \<Rightarrow> message \<Rightarrow> outcome" where
  "tokens_command env ucs m =
     (case from_user m of
        None \<Rightarrow> \<lparr>state = ucs, trace = [], raised = except_Exception AttributeError\<rparr>
      | Some user_id \<Rightarrow>
          (case ucs user_id of
             Some s \<Rightarrow>
               (let ucs' = ucs(user_id \<mapsto> s\<lparr>tokens := 1000\<rparr>);
                    (r, tr) = reply env tokens_reset_msg
                in \<lparr>state = ucs', trace = tr, raised = catch r\<rparr>)
           | None \<Rightarrow>
               (let (r, tr) = reply env user_not_found_msg
                in \<lparr>state = ucs, trace = tr, raised = catch r\<rparr>)))"

definition clean_command :: "env \<Rightarrow> user_contexts \<Rightarrow> message \<Rightarrow> outcome" where
  "clean_command env ucs m =
     (case from_user m of
        None \<Rightarrow> \<lparr>state = ucs, trace = [], raised = except_Exception AttributeError\<rparr>
      | Some user_id \<Rightarrow>
          (case ucs user_id of
             Some s \<Rightarrow>
               (let ucs' = ucs(user_id \<mapsto> s\<lparr>ctxt := []\<rparr>);
                    (r, tr) = reply env context_cleared_msg
                in \<lparr>state = ucs', trace = tr, raised = catch r\<rparr>)
           | None \<Rightarrow>
               (let (r, tr) = reply env user_not_found_msg
                in \<lparr>state = ucs, trace = tr, raised = catch r\<rparr>)))"

text \<open>
  The \<open>except\<close> clauses of \<open>generate_response\<close>, tried in the order of the source: the
  first clause whose class the exception is an instance of returns its apology.
\<close>

definition except_clauses :: "exc_class \<Rightarrow> exc_class + pystr" where
  "except_clauses e =
     (if issubclass e APIError then Inr api_error_msg
      else if issubclass e RateLimitError then Inr rate_limit_msg
      else if issubclass e AuthenticationError then Inr auth_error_msg
      else if issubclass e Exception then Inr unexpected_msg
      else Inl e)"

definition system_turn :: turn where
  "system_turn = \<lparr>role = ''system'', content = persona\<rparr>"

text \<open>
  \<open>generate_response\<close>: the whole body is inside the \<open>try\<close>. The user turn is appended
  before the request is sent; the assistant turn is appended once \<open>choices[0]\<close> has been
  read (\<open>IndexError\<close> on an empty list), and the budget is decremented once
  \<open>usage.total_tokens\<close> has been read (\<open>AttributeError\<close> when \<open>usage\<close> is \<open>None\<close>).
  \<open>user_contexts[user_id]\<close> raises \<open>KeyError\<close> for an unknown user. Whatever was
  written before an exception stays written.
\<close>

definition generate_response ::
  "env \<Rightarrow> user_contexts \<Rightarrow> int \<Rightarrow> pystr \<Rightarrow> (exc_class + pystr) \<times> user_contexts \<times> effect list"
where
  "generate_response env ucs user_id msg =
     (case ucs user_id of
        None \<Rightarrow> (except_clauses KeyError, ucs, [])
      | Some s \<Rightarrow>
          (let s1 = s\<lparr>ctxt := ctxt s @ [\<lparr>role = ''user'', content = msg\<rparr>]\<rparr>;
               ucs1 = ucs(user_id \<mapsto> s1);
               req = system_turn # ctxt s1
           in case api env req of
                Inl e \<Rightarrow> (except_clauses e, ucs1, [ApiCall req])
              | Inr response \<Rightarrow>
                  (case choices response of
                     [] \<Rightarrow> (except_clauses IndexError, ucs1, [ApiCall req])
                   | assistant_response # others \<Rightarrow>
                       (let s2 = s1\<lparr>ctxt := ctxt s1 @
                                   [\<lparr>role = ''assistant'', content = assistant_response\<rparr>]\<rparr>;
                            ucs2 = ucs1(user_id \<mapsto> s2)
                        in case usage response of
                             None \<Rightarrow> (except_clauses AttributeError, ucs2, [ApiCall req])
                           | Some tokens_used \<Rightarrow>
                               (Inr assistant_response,
                                ucs2(user_id \<mapsto> s2\<lparr>tokens := tokens s2 - tokens_used\<rparr>),
                                [ApiCall req])))))"

text \<open>
  The guard of \<open>handle_message\<close>:
  \<open>user_id not in user_contexts or user_contexts[user_id]["tokens"] <= 0\<close>.
\<close>

definition blocked :: "user_contexts \<Rightarrow> int \<Rightarrow> bool" where
  "blocked ucs user_id = (case ucs user_id of None \<Rightarrow> True | Some s \<Rightarrow> tokens s \<le> 0)"

definition handle_message :: "env \<Rightarrow> user_contexts \<Rightarrow> message \<Rightarrow> outcome" where
  "handle_message env ucs m =
     (case from_user m of
        None \<Rightarrow> \<lparr>state = ucs, trace = [], raised = except_Exception AttributeError\<rparr>
      | Some user_id \<Rightarrow>
          if blocked ucs user_id then
            (let (r, tr) = reply env out_of_tokens_msg
             in \<lparr>state = ucs, trace = tr, raised = catch r\<rparr>)
          else
            (case generate_response env ucs user_id (message_text m) of
               (Inl e, ucs', tr) \<Rightarrow> \<lparr>state = ucs', trace = tr, raised = except_Exception e\<rparr>
             | (Inr response, ucs', tr) \<Rightarrow>
                 (let (r, tr') = reply env response
                  in \<lparr>state = ucs', trace = tr @ tr', raised = catch r\<rparr>)))"

text \<open>
  The dispatcher routes an update to the handler registered for its command, and to
  \<open>handle_message\<close> otherwise. A run handles a sequence of updates one after the other,
  each in the world it meets, starting from a store: one update is handled at a time,
  and a handler runs to its end before the next one starts (no other handler touches
  the store while a handler awaits the completion or the platform).
\<close>

datatype event = Start message | Tokens message | Clean message | Text message

fun dispatch :: "env \<Rightarrow> user_contexts \<Rightarrow> event \<Rightarrow> outcome" where
  "dispatch env ucs (Start m) = start_command env ucs m"
| "dispatch env ucs (Tokens m) = tokens_command env ucs m"
| "dispatch env ucs (Clean m) = clean_command env ucs m"
| "dispatch env ucs (Text m) = handle_message env ucs m"

fun run :: "user_contexts \<Rightarrow> (env \<times> event) list \<Rightarrow> user_contexts" where
  "run ucs [] = ucs"
| "run ucs ((env, ev) # rest) = run (state (dispatch env ucs ev)) rest"

section \<open>Sample inputs and worlds\<close>

text \<open>
  Concrete messages, stores and worlds on which the handlers are evaluated below:
  user 1 writing \<open>"ahoy"\<close>, a message without sender, a store where user 1 has just
  registered, a store where user 1 has one exchange behind and 400 tokens left, a
  completion API that answers \<open>"Arrr"\<close> and reports a given usage, or reports no usage,
  or raises a given exception, and a platform that delivers every reply or refuses
  every reply.
\<close>

definition ahoy :: pystr where
  "ahoy = [97, 104, 111, 121]"

definition arrr :: pystr where
  "arrr = [65, 114, 114, 114]"

definition msg1 :: message where
  "msg1 = \<lparr>from_user = Some 1, message_text = ahoy\<rparr>"

definition anonymous_msg :: message where
  "anonymous_msg = \<lparr>from_user = None, message_text = ahoy\<rparr>"

definition registered1 :: user_contexts where
  "registered1 = Map.empty(1 \<mapsto> new_session)"

definition returning1 :: user_contexts where
  "returning1 = Map.empty(1 \<mapsto> \<lparr>ctxt = [\<lparr>role = ''user'', content = ahoy\<rparr>,
                                          \<lparr>role = ''assistant'', content = arrr\<rparr>],
                                  tokens = 400\<rparr>)"

definition api_answers :: "int \<Rightarrow> turn list \<Rightarrow> exc_class + completion" where
  "api_answers n req = Inr \<lparr>choices = [arrr], usage = Some n\<rparr>"

definition api_without_usage :: "turn list \<Rightarrow> exc_class + completion" where
  "api_without_usage req = Inr \<lparr>choices = [arrr], usage = None\<rparr>"

definition api_raises :: "exc_class \<Rightarrow> turn list \<Rightarrow> exc_class + completion" where
  "api_raises e req = Inl e"

definition send_ok :: "pystr \<Rightarrow> exc_class option" where
  "send_ok t = None"

definition send_fails :: "pystr \<Rightarrow> exc_class option" where
  "send_fails t = Some TelegramAPIError"

definition world :: "(turn list \<Rightarrow> exc_class + completion) \<Rightarrow> env" where
  "world a = \<lparr>api = a, send = send_ok\<rparr>"

definition refusing_world :: "(turn list \<Rightarrow> exc_class + completion) \<Rightarrow> env" where
  "refusing_world a = \<lparr>api = a, send = send_fails\<rparr>"

definition offline_world :: env where
  "offline_world = \<lparr>api = api_raises APIConnectionError, send = send_fails\<rparr>"

definition message_of :: "event \<Rightarrow> message" where
  "message_of ev = (case ev of Start m \<Rightarrow> m | Tokens m \<Rightarrow> m | Clean m \<Rightarrow> m | Text m \<Rightarrow> m)"

section \<open>Basic facts\<close>

lemma issubclass_Exception: "issubclass e Exception"
  by (cases e) (simp_all add: issubclass_def)

lemma except_Exception_None: "except_Exception e = None"
  by (simp add: except_Exception_def issubclass_Exception)

lemma catch_None: "catch r = None"
  by (cases r) (simp_all add: catch_def except_Exception_None)

lemma reply_no_call: "reply env t = (r, tr) \<Longrightarrow> ApiCall req \<notin> set tr"
  by (auto simp: reply_def split: option.splits)

lemma reply_trace: "snd (reply env t) = (if send env t = None then [Reply t] else [])"
  by (cases "send env t") (simp_all add: reply_def)

lemma generate_response_trace:
  "ucs uid = Some s \<Longrightarrow>
   snd (snd (generate_response env ucs uid msg)) =
     [ApiCall (system_turn # ctxt s @ [\<lparr>role = ''user'', content = msg\<rparr>])]"
  by (simp add: generate_response_def Let_def split: sum.splits list.splits option.splits)

text \<open>
  A request appears in the effects of \<open>handle_message\<close> only when the sender's budget was
  positive, and it is the persona followed by the history and the new user turn.
\<close>

lemma handle_message_call:
  assumes "from_user m = Some uid" "ucs uid = Some s"
    "ApiCall req \<in> set (trace (handle_message env ucs m))"
  shows "0 < tokens s \<and>
         req = system_turn # ctxt s @ [\<lparr>role = ''user'', content = message_text m\<rparr>]"
proof (cases "blocked ucs uid")
  case True
  with assms show ?thesis
    by (auto simp: handle_message_def split: prod.splits dest: reply_no_call)
next
  case False
  then have pos: "0 < tokens s" using assms(2) by (simp add: blocked_def)
  obtain r ucs' tr where g: "generate_response env ucs uid (message_text m) = (r, ucs', tr)"
    by (cases "generate_response env ucs uid (message_text m)") auto
  have tr: "tr = [ApiCall (system_turn # ctxt s @
                    [\<lparr>role = ''user'', content = message_text m\<rparr>])]"
    using assms(2) generate_response_trace[of ucs uid s env "message_text m"] g by simp
  show ?thesis
    using assms False g tr pos
    by (auto simp: handle_message_def split: prod.splits sum.splits dest: reply_no_call)
qed

lemma handle_message_state:
  assumes "from_user m = Some uid" "\<not> blocked ucs uid"
  shows "state (handle_message env ucs m) =
         fst (snd (generate_response env ucs uid (message_text m)))"
  using assms by (auto simp: handle_message_def split: prod.splits sum.splits)

text \<open>
  What each handler leaves behind: no handler lets an exception out, and the effects of
  each handler are the replies it got delivered and, for \<open>handle_message\<close>, the single
  request of \<open>generate_response\<close>.
\<close>

lemma start_command_raised: "raised (start_command env ucs m) = None"
  by (cases "reply env greeting_msg")
     (simp add: start_command_def Let_def except_Exception_None catch_None split: option.splits)

lemma tokens_command_raised: "raised (tokens_command env ucs m) = None"
  by (cases "reply env tokens_reset_msg"; cases "reply env user_not_found_msg")
     (simp add: tokens_command_def Let_def except_Exception_None catch_None split: option.splits)

lemma clean_command_raised: "raised (clean_command env ucs m) = None"
  by (cases "reply env context_cleared_msg"; cases "reply env user_not_found_msg")
     (simp add: clean_command_def Let_def except_Exception_None catch_None split: option.splits)

lemma handle_message_raised: "raised (handle_message env ucs m) = None"
  by (simp add: handle_message_def Let_def except_Exception_None catch_None
           split: option.splits prod.splits sum.splits)

lemma dispatch_raised: "raised (dispatch env ucs ev) = None"
  by (cases ev)
     (simp_all add: start_command_raised tokens_command_raised clean_command_raised
        handle_message_raised)

lemma dispatch_no_sender:
  "from_user (message_of ev) = None \<Longrightarrow>
   trace (dispatch env ucs ev) = [] \<and> state (dispatch env ucs ev) = ucs"
  by (cases ev)
     (simp_all add: message_of_def start_command_def tokens_command_def clean_command_def
        handle_message_def)

lemma start_command_trace:
  "trace (start_command env ucs m) =
     (case from_user m of None \<Rightarrow> [] | Some uid \<Rightarrow> snd (reply env greeting_msg))"
  by (cases "reply env greeting_msg")
     (simp add: start_command_def Let_def split: option.splits)

lemma tokens_command_trace:
  "trace (tokens_command env ucs m) =
     (case from_user m of None \<Rightarrow> []
      | Some uid \<Rightarrow> (case ucs uid of Some s \<Rightarrow> snd (reply env tokens_reset_msg)
                                   | None \<Rightarrow> snd (reply env user_not_found_msg)))"
  by (cases "reply env tokens_reset_msg"; cases "reply env user_not_found_msg")
     (simp add: tokens_command_def Let_def split: option.splits)

lemma clean_command_trace:
  "trace (clean_command env ucs m) =
     (case from_user m of None \<Rightarrow> []
      | Some uid \<Rightarrow> (case ucs uid of Some s \<Rightarrow> snd (reply env context_cleared_msg)
                                   | None \<Rightarrow> snd (reply env user_not_found_msg)))"
  by (cases "reply env context_cleared_msg"; cases "reply env user_not_found_msg")
     (simp add: clean_command_def Let_def split: option.splits)

lemma handle_message_trace:
  "trace (handle_message env ucs m) =
     (case from_user m of None \<Rightarrow> []
      | Some uid \<Rightarrow>
          if blocked ucs uid then snd (reply env out_of_tokens_msg)
          else (case generate_response env ucs uid (message_text m) of
                  (Inl e, ucs', tr) \<Rightarrow> tr
                | (Inr response, ucs', tr) \<Rightarrow> tr @ snd (reply env response)))"
  by (simp add: handle_message_def Let_def split: option.splits prod.splits sum.splits)

text \<open>
  What \<open>generate_response\<close> returns for each answer of the completion API, and what
  \<open>handle_message\<close> makes of it.
\<close>

lemma except_clauses_apology:
  "except_clauses e = Inr (if issubclass e APIError then api_error_msg else unexpected_msg)"
  by (cases e) (simp_all add: except_clauses_def issubclass_def)

lemma not_blocked: "ucs uid = Some s \<Longrightarrow> 0 < tokens s \<Longrightarrow> \<not> blocked ucs uid"
  by (simp add: blocked_def)

lemma handle_message_served:
  assumes "from_user m = Some uid" and "\<not> blocked ucs uid"
    and "generate_response env ucs uid (message_text m) = (Inr t, ucs', tr)"
  shows "handle_message env ucs m =
           \<lparr>state = ucs', trace = tr @ (if send env t = None then [Reply t] else []),
            raised = None\<rparr>"
  using assms reply_trace[of env t]
  by (cases "reply env t") (simp add: handle_message_def catch_None)

lemma generate_response_success:
  assumes "ucs uid = Some s"
    and "api env (system_turn # ctxt s @ [\<lparr>role = ''user'', content = msg\<rparr>]) = Inr resp"
    and "choices resp = a # others" and "usage resp = Some n"
  shows "generate_response env ucs uid msg =
           (Inr a,
            ucs(uid \<mapsto> s\<lparr>ctxt := ctxt s @ [\<lparr>role = ''user'', content = msg\<rparr>,
                                            \<lparr>role = ''assistant'', content = a\<rparr>],
                          tokens := tokens s - n\<rparr>),
            [ApiCall (system_turn # ctxt s @ [\<lparr>role = ''user'', content = msg\<rparr>])])"
  using assms by (simp add: generate_response_def Let_def)

lemma generate_response_raises:
  assumes "ucs uid = Some s"
    and "api env (system_turn # ctxt s @ [\<lparr>role = ''user'', content = msg\<rparr>]) = Inl e"
  shows "generate_response env ucs uid msg =
           (Inr (if issubclass e APIError then api_error_msg else unexpected_msg),
            ucs(uid \<mapsto> s\<lparr>ctxt := ctxt s @ [\<lparr>role = ''user'', content = msg\<rparr>]\<rparr>),
            [ApiCall (system_turn # ctxt s @ [\<lparr>role = ''user'', content = msg\<rparr>])])"
  using assms by (simp add: generate_response_def Let_def except_clauses_apology)

lemma generate_response_malformed:
  assumes "ucs uid = Some s"
    and "api env (system_turn # ctxt s @ [\<lparr>role = ''user'', content = msg\<rparr>]) = Inr resp"
    and "choices resp = [] \<or> usage resp = None"
  shows "\<exists>ucs'. generate_response env ucs uid msg =
           (Inr unexpected_msg, ucs',
            [ApiCall (system_turn # ctxt s @ [\<lparr>role = ''user'', content = msg\<rparr>])])"
proof -
  have u: "except_clauses IndexError = Inr unexpected_msg"
      "except_clauses AttributeError = Inr unexpected_msg"
    by (simp_all add: except_clauses_apology issubclass_def)
  show ?thesis
    using assms u
    by (auto simp: generate_response_def Let_def split: list.splits option.splits)
qed

text \<open>
  When the sending of the reply raises, the handler delivers nothing.
\<close>

lemma start_command_refused:
  "send env greeting_msg \<noteq> None \<Longrightarrow> trace (start_command env ucs m) = []"
  by (auto simp: start_command_trace reply_trace split: option.splits)

lemma tokens_command_refused:
  "from_user m = Some uid \<Longrightarrow>
   send env (case ucs uid of None \<Rightarrow> user_not_found_msg | Some s \<Rightarrow> tokens_reset_msg) \<noteq> None
   \<Longrightarrow> trace (tokens_command env ucs m) = []"
  by (auto simp: tokens_command_trace reply_trace split: option.splits)

lemma clean_command_refused:
  "from_user m = Some uid \<Longrightarrow>
   send env (case ucs uid of None \<Rightarrow> user_not_found_msg | Some s \<Rightarrow> context_cleared_msg) \<noteq> None
   \<Longrightarrow> trace (clean_command env ucs m) = []"
  by (auto simp: clean_command_trace reply_trace split: option.splits)

lemma handle_message_blocked_refused:
  "from_user m = Some uid \<Longrightarrow> ucs uid = None \<or> ucs uid = Some s \<and> tokens s \<le> 0 \<Longrightarrow>
   send env out_of_tokens_msg \<noteq> None \<Longrightarrow> trace (handle_message env ucs m) = []"
  by (auto simp: handle_message_trace reply_trace blocked_def)

lemma handle_message_unexpected:
  assumes "from_user m = Some uid" and "ucs uid = Some s" and "0 < tokens s"
    and "req = system_turn # ctxt s @ [\<lparr>role = ''user'', content = message_text m\<rparr>]"
    and "api env req = Inl e \<and> \<not> issubclass e APIError
         \<or> api env req = Inr resp \<and> (choices resp = [] \<or> usage resp = None)"
  shows "trace (handle_message env ucs m) =
           ApiCall req # (if send env unexpected_msg = None then [Reply unexpected_msg] else [])"
proof -
  have nb: "\<not> blocked ucs uid" using assms(2,3) by (rule not_blocked)
  from assms(5) have "\<exists>ucs'. generate_response env ucs uid (message_text m) =
          (Inr unexpected_msg, ucs', [ApiCall req])"
  proof
    assume a: "api env req = Inl e \<and> \<not> issubclass e APIError"
    then show ?thesis
      using generate_response_raises[where ucs = ucs and uid = uid and s = s and env = env
              and msg = "message_text m" and e = e] assms(2,4)
      by simp
  next
    assume a: "api env req = Inr resp \<and> (choices resp = [] \<or> usage resp = None)"
    then show ?thesis
      using generate_response_malformed[where ucs = ucs and uid = uid and s = s
              and env = env and msg = "message_text m" and resp = resp] assms(2,4)
      by simp
  qed
  then obtain ucs' where g: "generate_response env ucs uid (message_text m) =
          (Inr unexpected_msg, ucs', [ApiCall req])" by blast
  show ?thesis by (simp add: handle_message_served[OF assms(1) nb g])
qed

lemma handle_message_reply_refused:
  assumes "from_user m = Some uid" and "ucs uid = Some s" and "0 < tokens s"
    and "req = system_turn # ctxt s @ [\<lparr>role = ''user'', content = message_text m\<rparr>]"
    and "api env req = Inr resp \<and> choices resp = a # others \<and> usage resp = Some n
           \<and> send env a \<noteq> None
         \<or> api env req = Inl e \<and> issubclass e APIError \<and> send env api_error_msg \<noteq> None"
  shows "trace (handle_message env ucs m) = [ApiCall req]"
proof -
  have nb: "\<not> blocked ucs uid" using assms(2,3) by (rule not_blocked)
  from assms(5) show ?thesis
  proof
    assume a: "api env req = Inr resp \<and> choices resp = a # others \<and> usage resp = Some n
           \<and> send env a \<noteq> None"
    then have g: "generate_response env ucs uid (message_text m) =
           (Inr a,
            ucs(uid \<mapsto> s\<lparr>ctxt := ctxt s @ [\<lparr>role = ''user'', content = message_text m\<rparr>,
                                            \<lparr>role = ''assistant'', content = a\<rparr>],
                          tokens := tokens s - n\<rparr>),
            [ApiCall req])"
      using generate_response_success[where ucs = ucs and uid = uid and s = s and env = env
              and msg = "message_text m" and resp = resp and a = a and others = others
              and n = n] assms(2,4)
      by simp
    show ?thesis using a by (simp add: handle_message_served[OF assms(1) nb g])
  next
    assume a: "api env req = Inl e \<and> issubclass e APIError \<and> send env api_error_msg \<noteq> None"
    then have g: "generate_response env ucs uid (message_text m) =
           (Inr api_error_msg,
            ucs(uid \<mapsto> s\<lparr>ctxt := ctxt s @ [\<lparr>role = ''user'', content = message_text m\<rparr>]\<rparr>),
            [ApiCall req])"
      using generate_response_raises[where ucs = ucs and uid = uid and s = s and env = env
              and msg = "message_text m" and e = e] assms(2,4)
      by simp
    show ?thesis using a by (simp add: handle_message_served[OF assms(1) nb g])
  qed
qed

lemmas sample_defs =
  msg1_def anonymous_msg_def registered1_def new_session_def api_answers_def
  api_without_usage_def api_raises_def send_ok_def send_fails_def world_def offline_world_def
  returning1_def refusing_world_def

lemmas handler_defs =
  start_command_def tokens_command_def clean_command_def handle_message_def
  generate_response_def blocked_def reply_def catch_def except_Exception_def
  except_clauses_def issubclass_def Let_def

section \<open>Free-text messages\<close>

text \<open>
  Claim C1. For a registered user whose budget is positive (the only case in which the
  handler calls the completion API) and a free-text message, when the completion call,
  made with the persona, the history and the new user turn, succeeds with a first
  choice \<open>a\<close> and a reported total usage \<open>n\<close>, the handler makes exactly that call,
  appends exactly two turns to that user's history, the user turn with the message
  and then the assistant turn with the reply text \<open>a\<close>, lowers the budget by exactly
  \<open>n\<close> (nothing bounds the result from below, so it may be negative), and replies with
  \<open>a\<close>. No other session changes and nothing is raised.
\<close>

theorem handle_message_success:
  assumes "from_user m = Some uid" and "ucs uid = Some s" and "0 < tokens s"
    and "api env (system_turn # ctxt s @ [\<lparr>role = ''user'', content = message_text m\<rparr>])
           = Inr resp"
    and "choices resp = a # others" and "usage resp = Some n"
  shows "state (handle_message env ucs m) =
           ucs(uid \<mapsto> s\<lparr>ctxt := ctxt s @ [\<lparr>role = ''user'', content = message_text m\<rparr>,
                                          \<lparr>role = ''assistant'', content = a\<rparr>],
                        tokens := tokens s - n\<rparr>)
       \<and> trace (handle_message env ucs m) =
           ApiCall (system_turn # ctxt s @ [\<lparr>role = ''user'', content = message_text m\<rparr>])
           # (if send env a = None then [Reply a] else [])
       \<and> raised (handle_message env ucs m) = None"
proof -
  have nb: "\<not> blocked ucs uid" using assms(2,3) by (rule not_blocked)
  note g = generate_response_success[where ucs = ucs and uid = uid and s = s and env = env
      and msg = "message_text m", OF assms(2) assms(4) assms(5) assms(6)]
  show ?thesis
    by (simp add: handle_message_served[OF assms(1) nb g])
qed

theorem handle_message_success_witness:
  "from_user msg1 = Some 1
   \<and> 0 < tokens \<lparr>ctxt = [\<lparr>role = ''user'', content = ahoy\<rparr>,
                           \<lparr>role = ''assistant'', content = arrr\<rparr>], tokens = 400\<rparr>
   \<and> state (handle_message (world (api_answers 430)) returning1 msg1) =
        Map.empty(1 \<mapsto> \<lparr>ctxt = [\<lparr>role = ''user'', content = ahoy\<rparr>,
                                   \<lparr>role = ''assistant'', content = arrr\<rparr>,
                                   \<lparr>role = ''user'', content = ahoy\<rparr>,
                                   \<lparr>role = ''assistant'', content = arrr\<rparr>],
                           tokens = - 30\<rparr>)
   \<and> trace (handle_message (world (api_answers 430)) returning1 msg1) =
        [ApiCall [system_turn, \<lparr>role = ''user'', content = ahoy\<rparr>,
                  \<lparr>role = ''assistant'', content = arrr\<rparr>,
                  \<lparr>role = ''user'', content = ahoy\<rparr>],
         Reply arrr]"
proof -
  let ?s = "\<lparr>ctxt = [\<lparr>role = ''user'', content = ahoy\<rparr>,
                     \<lparr>role = ''assistant'', content = arrr\<rparr>], tokens = 400\<rparr>"
  let ?w = "world (api_answers 430)"
  let ?resp = "\<lparr>choices = [arrr], usage = Some 430\<rparr>"
  have h1: "from_user msg1 = Some 1" by (simp add: msg1_def)
  have h2: "returning1 1 = Some ?s" by (simp add: returning1_def)
  have h3: "0 < tokens ?s" by simp
  have h4: "api ?w (system_turn # ctxt ?s @ [\<lparr>role = ''user'', content = message_text msg1\<rparr>])
              = Inr ?resp"
    by (simp add: world_def api_answers_def)
  have h5: "choices ?resp = arrr # []" by simp
  have h6: "usage ?resp = Some 430" by simp
  have h7: "send ?w arrr = None" by (simp add: world_def send_ok_def)
  from handle_message_success[where m = msg1 and uid = 1 and ucs = returning1 and s = ?s
         and env = ?w and resp = ?resp and a = arrr and others = "[]" and n = 430,
         OF h1 h2 h3 h4 h5 h6] h1 h3 h7
  show ?thesis by (simp add: returning1_def msg1_def)
qed

text \<open>
  Claim C10. For a registered user whose budget is positive and a free-text message,
  when the completion call raises, whatever the exception, the handler has made the
  call, the budget is unchanged and the history has grown by exactly the user turn
  with the message: the turn appended before the call is not taken back. The reply is
  the apology chosen by the \<open>except\<close> clauses, and nothing is raised.
\<close>

theorem handle_message_api_failure:
  assumes "from_user m = Some uid" and "ucs uid = Some s" and "0 < tokens s"
    and "api env (system_turn # ctxt s @ [\<lparr>role = ''user'', content = message_text m\<rparr>])
           = Inl e"
  shows "state (handle_message env ucs m) =
           ucs(uid \<mapsto> s\<lparr>ctxt := ctxt s @ [\<lparr>role = ''user'', content = message_text m\<rparr>]\<rparr>)
       \<and> trace (handle_message env ucs m) =
           ApiCall (system_turn # ctxt s @ [\<lparr>role = ''user'', content = message_text m\<rparr>])
           # (let t = (if issubclass e APIError then api_error_msg else unexpected_msg)
              in if send env t = None then [Reply t] else [])
       \<and> raised (handle_message env ucs m) = None"
proof -
  have nb: "\<not> blocked ucs uid" using assms(2,3) by (rule not_blocked)
  note g = generate_response_raises[where ucs = ucs and uid = uid and s = s and env = env
      and msg = "message_text m", OF assms(2) assms(4)]
  show ?thesis
    by (simp add: handle_message_served[OF assms(1) nb g] Let_def)
qed

theorem handle_message_api_failure_witness:
  "from_user msg1 = Some 1
   \<and> 0 < tokens \<lparr>ctxt = [\<lparr>role = ''user'', content = ahoy\<rparr>,
                           \<lparr>role = ''assistant'', content = arrr\<rparr>], tokens = 400\<rparr>
   \<and> state (handle_message (world (api_raises APIConnectionError)) returning1 msg1) =
        Map.empty(1 \<mapsto> \<lparr>ctxt = [\<lparr>role = ''user'', content = ahoy\<rparr>,
                                   \<lparr>role = ''assistant'', content = arrr\<rparr>,
                                   \<lparr>role = ''user'', content = ahoy\<rparr>],
                           tokens = 400\<rparr>)
   \<and> trace (handle_message (world (api_raises APIConnectionError)) returning1 msg1) =
        [ApiCall [system_turn, \<lparr>role = ''user'', content = ahoy\<rparr>,
                  \<lparr>role = ''assistant'', content = arrr\<rparr>,
                  \<lparr>role = ''user'', content = ahoy\<rparr>],
         Reply api_error_msg]"
proof -
  let ?s = "\<lparr>ctxt = [\<lparr>role = ''user'', content = ahoy\<rparr>,
                     \<lparr>role = ''assistant'', content = arrr\<rparr>], tokens = 400\<rparr>"
  let ?w = "world (api_raises APIConnectionError)"
  have h1: "from_user msg1 = Some 1" by (simp add: msg1_def)
  have h2: "returning1 1 = Some ?s" by (simp add: returning1_def)
  have h3: "0 < tokens ?s" by simp
  have h4: "api ?w (system_turn # ctxt ?s @ [\<lparr>role = ''user'', content = message_text msg1\<rparr>])
              = Inl APIConnectionError"
    by (simp add: world_def api_raises_def)
  have h5: "issubclass APIConnectionError APIError" by (simp add: issubclass_def)
  have h6: "send ?w api_error_msg = None" by (simp add: world_def send_ok_def)
  from handle_message_api_failure[where m = msg1 and uid = 1 and ucs = returning1
         and s = ?s and env = ?w and e = APIConnectionError, OF h1 h2 h3 h4] h1 h3 h5 h6
  show ?thesis by (simp add: returning1_def msg1_def Let_def)
qed

text \<open>
  Claim C2. For a user whose session exists with a budget of at most 0, a free-text
  message leaves the store unchanged, makes no completion call, and the only effect is
  the fixed out-of-tokens reply (delivered whenever the platform accepts it).
\<close>

theorem handle_message_out_of_tokens:
  assumes "from_user m = Some uid" and "ucs uid = Some s" and "tokens s \<le> 0"
  shows "state (handle_message env ucs m) = ucs
       \<and> trace (handle_message env ucs m) =
           (if send env out_of_tokens_msg = None then [Reply out_of_tokens_msg] else [])
       \<and> ApiCall req \<notin> set (trace (handle_message env ucs m))
       \<and> raised (handle_message env ucs m) = None"
proof -
  have b: "blocked ucs uid" using assms(2,3) by (simp add: blocked_def)
  obtain r tr where rp: "reply env out_of_tokens_msg = (r, tr)"
    by (cases "reply env out_of_tokens_msg") auto
  have hm: "handle_message env ucs m = \<lparr>state = ucs, trace = tr, raised = catch r\<rparr>"
    using assms(1) b rp by (simp add: handle_message_def)
  show ?thesis
    using reply_trace[of env out_of_tokens_msg] reply_no_call[OF rp, of req]
    by (simp add: hm catch_None rp)
qed

theorem handle_message_out_of_tokens_witness:
  "from_user msg1 = Some 1 \<and> tokens \<lparr>ctxt = [], tokens = - 500\<rparr> \<le> 0
   \<and> state (handle_message (world (api_answers 30))
              (Map.empty(1 \<mapsto> \<lparr>ctxt = [], tokens = - 500\<rparr>)) msg1)
       = Map.empty(1 \<mapsto> \<lparr>ctxt = [], tokens = - 500\<rparr>)
   \<and> trace (handle_message (world (api_answers 30))
              (Map.empty(1 \<mapsto> \<lparr>ctxt = [], tokens = - 500\<rparr>)) msg1)
       = [Reply out_of_tokens_msg]"
proof -
  have h1: "from_user msg1 = Some 1" by (simp add: msg1_def)
  have h2: "(Map.empty(1 \<mapsto> \<lparr>ctxt = [], tokens = - 500\<rparr>)) (1::int)
              = Some \<lparr>ctxt = [], tokens = - 500\<rparr>" by simp
  have h3: "tokens \<lparr>ctxt = [], tokens = - 500\<rparr> \<le> 0" by simp
  from handle_message_out_of_tokens[where m = msg1 and uid = 1
      and ucs = "Map.empty(1 \<mapsto> \<lparr>ctxt = [], tokens = - 500\<rparr>)"
      and s = "\<lparr>ctxt = [], tokens = - 500\<rparr>" and env = "world (api_answers 30)", OF h1 h2 h3] h1 h3
  show ?thesis by (simp add: world_def send_ok_def)
qed

section \<open>The commands\<close>

text \<open>
  Claim C4. For a user with no session, \<open>/start\<close> creates a session for that user with
  budget exactly 1000 and an empty history; for a user whose session exists, \<open>/start\<close>
  leaves the store, and so that session's history and budget, as it was.
\<close>

theorem start_command_session:
  assumes "from_user m = Some uid"
  shows "(ucs uid = None \<longrightarrow>
            state (start_command env ucs m) = ucs(uid \<mapsto> \<lparr>ctxt = [], tokens = 1000\<rparr>))
       \<and> (ucs uid \<noteq> None \<longrightarrow> state (start_command env ucs m) = ucs)"
  using assms
  by (cases "reply env greeting_msg")
     (auto simp: start_command_def new_session_def split: option.splits)

theorem start_command_session_witness:
  "from_user msg1 = Some 1
   \<and> state (start_command (world (api_answers 30)) Map.empty msg1)
        = Map.empty(1 \<mapsto> \<lparr>ctxt = [], tokens = 1000\<rparr>)
   \<and> state (start_command (world (api_answers 30))
               (Map.empty(1 \<mapsto> \<lparr>ctxt = [\<lparr>role = ''user'', content = ahoy\<rparr>], tokens = 7\<rparr>)) msg1)
        = Map.empty(1 \<mapsto> \<lparr>ctxt = [\<lparr>role = ''user'', content = ahoy\<rparr>], tokens = 7\<rparr>)"
proof -
  have h: "from_user msg1 = Some 1" by (simp add: msg1_def)
  from start_command_session[where m = msg1 and uid = 1 and ucs = Map.empty
         and env = "world (api_answers 30)", OF h]
       start_command_session[where m = msg1 and uid = 1
         and ucs = "Map.empty(1 \<mapsto> \<lparr>ctxt = [\<lparr>role = ''user'', content = ahoy\<rparr>], tokens = 7\<rparr>)"
         and env = "world (api_answers 30)", OF h] h
  show ?thesis by simp
qed

text \<open>
  Claim C5. For a user with a session, \<open>/tokens\<close> sets that user's budget to exactly
  1000 whatever it was before and keeps the history; for a user with no session it
  leaves the store unchanged (no session is created) and its only effect is the
  user-not-found error reply.
\<close>

theorem tokens_command_reset:
  assumes "from_user m = Some uid"
  shows "(\<forall>s. ucs uid = Some s \<longrightarrow>
            state (tokens_command env ucs m) = ucs(uid \<mapsto> \<lparr>ctxt = ctxt s, tokens = 1000\<rparr>))
       \<and> (ucs uid = None \<longrightarrow>
            state (tokens_command env ucs m) = ucs
          \<and> trace (tokens_command env ucs m) =
              (if send env user_not_found_msg = None then [Reply user_not_found_msg] else []))"
proof -
  have known: "state (tokens_command env ucs m) = ucs(uid \<mapsto> \<lparr>ctxt = ctxt s, tokens = 1000\<rparr>)"
    if "ucs uid = Some s" for s
    using assms that
    by (cases "reply env tokens_reset_msg"; cases s) (simp add: tokens_command_def)
  have unknown: "state (tokens_command env ucs m) = ucs
          \<and> trace (tokens_command env ucs m) =
              (if send env user_not_found_msg = None then [Reply user_not_found_msg] else [])"
    if "ucs uid = None"
    using assms that reply_trace[of env user_not_found_msg]
    by (cases "reply env user_not_found_msg") (simp add: tokens_command_def)
  from known unknown show ?thesis by blast
qed

theorem tokens_command_reset_witness:
  "from_user msg1 = Some 1
   \<and> state (tokens_command (world (api_answers 30))
               (Map.empty(1 \<mapsto> \<lparr>ctxt = [\<lparr>role = ''user'', content = ahoy\<rparr>], tokens = - 500\<rparr>)) msg1)
        = Map.empty(1 \<mapsto> \<lparr>ctxt = [\<lparr>role = ''user'', content = ahoy\<rparr>], tokens = 1000\<rparr>)
   \<and> state (tokens_command (world (api_answers 30)) Map.empty msg1) = Map.empty
   \<and> trace (tokens_command (world (api_answers 30)) Map.empty msg1)
        = [Reply user_not_found_msg]"
proof -
  have h: "from_user msg1 = Some 1" by (simp add: msg1_def)
  from tokens_command_reset[where m = msg1 and uid = 1 and ucs = Map.empty
         and env = "world (api_answers 30)", OF h]
       tokens_command_reset[where m = msg1 and uid = 1
         and ucs = "Map.empty(1 \<mapsto> \<lparr>ctxt = [\<lparr>role = ''user'', content = ahoy\<rparr>], tokens = - 500\<rparr>)"
         and env = "world (api_answers 30)", OF h] h
  show ?thesis by (simp add: world_def send_ok_def)
qed

text \<open>
  Claim C6. For a user with a session, \<open>/clean\<close> sets that user's history to the empty
  list and keeps the budget; for a user with no session it leaves the store unchanged
  (no session is created) and its only effect is the user-not-found error reply.
\<close>

theorem clean_command_clears:
  assumes "from_user m = Some uid"
  shows "(\<forall>s. ucs uid = Some s \<longrightarrow>
            state (clean_command env ucs m) = ucs(uid \<mapsto> \<lparr>ctxt = [], tokens = tokens s\<rparr>))
       \<and> (ucs uid = None \<longrightarrow>
            state (clean_command env ucs m) = ucs
          \<and> trace (clean_command env ucs m) =
              (if send env user_not_found_msg = None then [Reply user_not_found_msg] else []))"
proof -
  have known: "state (clean_command env ucs m) = ucs(uid \<mapsto> \<lparr>ctxt = [], tokens = tokens s\<rparr>)"
    if "ucs uid = Some s" for s
    using assms that
    by (cases "reply env context_cleared_msg"; cases s) (simp add: clean_command_def)
  have unknown: "state (clean_command env ucs m) = ucs
          \<and> trace (clean_command env ucs m) =
              (if send env user_not_found_msg = None then [Reply user_not_found_msg] else [])"
    if "ucs uid = None"
    using assms that reply_trace[of env user_not_found_msg]
    by (cases "reply env user_not_found_msg") (simp add: clean_command_def)
  from known unknown show ?thesis by blast
qed

theorem clean_command_clears_witness:
  "from_user msg1 = Some 1
   \<and> state (clean_command (world (api_answers 30))
               (Map.empty(1 \<mapsto> \<lparr>ctxt = [\<lparr>role = ''user'', content = ahoy\<rparr>], tokens = 7\<rparr>)) msg1)
        = Map.empty(1 \<mapsto> \<lparr>ctxt = [], tokens = 7\<rparr>)
   \<and> state (clean_command (world (api_answers 30)) Map.empty msg1) = Map.empty
   \<and> trace (clean_command (world (api_answers 30)) Map.empty msg1)
        = [Reply user_not_found_msg]"
proof -
  have h: "from_user msg1 = Some 1" by (simp add: msg1_def)
  from clean_command_clears[where m = msg1 and uid = 1 and ucs = Map.empty
         and env = "world (api_answers 30)", OF h]
       clean_command_clears[where m = msg1 and uid = 1
         and ucs = "Map.empty(1 \<mapsto> \<lparr>ctxt = [\<lparr>role = ''user'', content = ahoy\<rparr>], tokens = 7\<rparr>)"
         and env = "world (api_answers 30)", OF h] h
  show ?thesis by (simp add: world_def send_ok_def)
qed

section \<open>Messages of unknown users\<close>

text \<open>
  Claim C7 says that the first free-text message of a user with no session creates a
  session. The guard of \<open>handle_message\<close> blocks exactly that case: on the empty store,
  the message of user 1 leaves user 1 without a session and is answered with the
  out-of-tokens text.
\<close>

theorem first_message_counterexample:
  "state (handle_message (world (api_answers 30)) Map.empty msg1) 1 = None
   \<and> trace (handle_message (world (api_answers 30)) Map.empty msg1) = [Reply out_of_tokens_msg]"
  by (simp add: handler_defs sample_defs)

text \<open>
  Claim C7, amended. For a user with no session, a free-text message creates no
  session: the store is unchanged, no completion call is made, and the only effect is
  the fixed out-of-tokens reply. (Sessions are created by \<open>/start\<close>, see C4.)
\<close>

theorem handle_message_unknown_user:
  assumes "from_user m = Some uid" and "ucs uid = None"
  shows "state (handle_message env ucs m) = ucs
       \<and> trace (handle_message env ucs m) =
           (if send env out_of_tokens_msg = None then [Reply out_of_tokens_msg] else [])
       \<and> ApiCall req \<notin> set (trace (handle_message env ucs m))"
proof -
  have b: "blocked ucs uid" using assms(2) by (simp add: blocked_def)
  obtain r tr where rp: "reply env out_of_tokens_msg = (r, tr)"
    by (cases "reply env out_of_tokens_msg") auto
  have hm: "handle_message env ucs m = \<lparr>state = ucs, trace = tr, raised = catch r\<rparr>"
    using assms(1) b rp by (simp add: handle_message_def)
  show ?thesis
    using reply_trace[of env out_of_tokens_msg] reply_no_call[OF rp, of req]
    by (simp add: hm rp)
qed

theorem handle_message_unknown_user_witness:
  "from_user msg1 = Some 1 \<and> Map.empty (1::int) = (None :: session option)
   \<and> state (handle_message (world (api_answers 30)) Map.empty msg1) = Map.empty
   \<and> trace (handle_message (world (api_answers 30)) Map.empty msg1) = [Reply out_of_tokens_msg]"
proof -
  have h1: "from_user msg1 = Some 1" by (simp add: msg1_def)
  have h2: "Map.empty (1::int) = (None :: session option)" by simp
  from handle_message_unknown_user[where m = msg1 and uid = 1 and ucs = Map.empty
         and env = "world (api_answers 30)", OF h1 h2] h1
  show ?thesis by (simp add: world_def send_ok_def)
qed

section \<open>The budget after a completion\<close>

text \<open>
  Claim C8 says that the budget is never negative immediately after a successful
  completion has been recorded. Nothing in the program bounds the usage by the budget:
  user 1 registers (budget 1000) and sends one message, the completion succeeds and
  reports a usage of 1500, and the recorded budget is \<open>-500\<close>.
\<close>

theorem budget_negative_counterexample:
  "run Map.empty [(world (api_answers 1500), Start msg1),
                  (world (api_answers 1500), Text msg1)] 1
     = Some \<lparr>ctxt = [\<lparr>role = ''user'', content = ahoy\<rparr>,
                      \<lparr>role = ''assistant'', content = arrr\<rparr>],
             tokens = - 500\<rparr>"
  by (simp add: handler_defs sample_defs)

text \<open>
  Claim C8, amended. For every store reached by a sequence of handled events, a
  completion is requested for a user only while that user's budget is positive, and
  immediately after a successful completion is recorded the budget is the previous
  budget minus the reported usage \<open>n\<close>: it may be negative, and it is greater than
  \<open>-n\<close>.
\<close>

theorem budget_after_completion:
  assumes "from_user m = Some uid" and "run ucs0 evs uid = Some s"
    and "ApiCall req \<in> set (trace (handle_message env (run ucs0 evs) m))"
    and "api env req = Inr resp"
    and "choices resp = a # others" and "usage resp = Some n"
    and "state (handle_message env (run ucs0 evs) m) uid = Some s'"
  shows "0 < tokens s \<and> tokens s' = tokens s - n \<and> - n < tokens s'"
proof -
  have pos: "0 < tokens s"
    using handle_message_call[OF assms(1-3)] by simp
  have nb: "\<not> blocked (run ucs0 evs) uid" using pos assms(2) by (simp add: blocked_def)
  have req: "req = system_turn # ctxt s @ [\<lparr>role = ''user'', content = message_text m\<rparr>]"
    using handle_message_call[OF assms(1-3)] by simp
  have "state (handle_message env (run ucs0 evs) m) uid =
          Some (s\<lparr>ctxt := ctxt s @ [\<lparr>role = ''user'', content = message_text m\<rparr>,
                                    \<lparr>role = ''assistant'', content = a\<rparr>],
                  tokens := tokens s - n\<rparr>)"
    using assms(2,4-6) req
    by (simp add: handle_message_state[OF assms(1) nb] generate_response_def Let_def)
  with assms(7) have "tokens s' = tokens s - n" by auto
  with pos show ?thesis by simp
qed

theorem budget_after_completion_witness:
  "from_user msg1 = Some 1
   \<and> run Map.empty [(world (api_answers 1500), Start msg1)] 1 = Some new_session
   \<and> ApiCall [system_turn, \<lparr>role = ''user'', content = ahoy\<rparr>]
        \<in> set (trace (handle_message (world (api_answers 1500))
                        (run Map.empty [(world (api_answers 1500), Start msg1)]) msg1))
   \<and> 0 < tokens new_session
   \<and> tokens \<lparr>ctxt = [\<lparr>role = ''user'', content = ahoy\<rparr>,
                       \<lparr>role = ''assistant'', content = arrr\<rparr>], tokens = - 500\<rparr>
        = tokens new_session - 1500
   \<and> - 1500 < tokens \<lparr>ctxt = [\<lparr>role = ''user'', content = ahoy\<rparr>,
                       \<lparr>role = ''assistant'', content = arrr\<rparr>], tokens = - 500\<rparr>"
proof -
  let ?w = "world (api_answers 1500)"
  let ?evs = "[(?w, Start msg1)]"
  let ?req = "[system_turn, \<lparr>role = ''user'', content = ahoy\<rparr>]"
  let ?s' = "\<lparr>ctxt = [\<lparr>role = ''user'', content = ahoy\<rparr>,
                       \<lparr>role = ''assistant'', content = arrr\<rparr>], tokens = - 500\<rparr>"
  have h1: "from_user msg1 = Some 1" by (simp add: msg1_def)
  have h2: "run Map.empty ?evs 1 = Some new_session"
    by (simp add: handler_defs sample_defs)
  have h3: "ApiCall ?req \<in> set (trace (handle_message ?w (run Map.empty ?evs) msg1))"
    by (simp add: handler_defs sample_defs)
  have h4: "api ?w ?req = Inr \<lparr>choices = [arrr], usage = Some 1500\<rparr>"
    by (simp add: sample_defs)
  have h5: "choices \<lparr>choices = [arrr], usage = Some 1500\<rparr> = arrr # []" by simp
  have h6: "usage \<lparr>choices = [arrr], usage = Some (1500::int)\<rparr> = Some 1500" by simp
  have h7: "state (handle_message ?w (run Map.empty ?evs) msg1) 1 = Some ?s'"
    by (simp add: handler_defs sample_defs)
  from budget_after_completion[where m = msg1 and uid = 1 and ?ucs0.0 = Map.empty
         and evs = ?evs and s = new_session and req = ?req and env = ?w
         and resp = "\<lparr>choices = [arrr], usage = Some 1500\<rparr>" and a = arrr
         and others = "[]" and n = 1500 and s' = ?s', OF h1 h2 h3 h4 h5 h6 h7] h1 h2 h3
  show ?thesis by simp
qed

section \<open>The apologies for completion errors\<close>

text \<open>
  Claim C3 says that each of the three error kinds of the completion API yields its own
  apology. The clause for \<open>APIError\<close> comes first and \<open>RateLimitError\<close> and
  \<open>AuthenticationError\<close> are subclasses of \<open>APIError\<close>, so the two later clauses are never
  reached: when the completion call raises \<open>RateLimitError\<close>, or \<open>AuthenticationError\<close>,
  the user is sent the apology of the generic API error, which differs from the
  apologies written for these two kinds.
\<close>

theorem rate_limit_apology_unreachable:
  "trace (handle_message (world (api_raises RateLimitError)) registered1 msg1)
     = [ApiCall [system_turn, \<lparr>role = ''user'', content = ahoy\<rparr>], Reply api_error_msg]
   \<and> trace (handle_message (world (api_raises AuthenticationError)) registered1 msg1)
     = [ApiCall [system_turn, \<lparr>role = ''user'', content = ahoy\<rparr>], Reply api_error_msg]
   \<and> api_error_msg \<noteq> rate_limit_msg \<and> api_error_msg \<noteq> auth_error_msg"
proof -
  have "api_error_msg \<noteq> rate_limit_msg"
    by (simp add: api_error_msg_def rate_limit_msg_def)
  moreover have "api_error_msg \<noteq> auth_error_msg"
    by (simp add: api_error_msg_def auth_error_msg_def)
  moreover have "trace (handle_message (world (api_raises RateLimitError)) registered1 msg1)
     = [ApiCall [system_turn, \<lparr>role = ''user'', content = ahoy\<rparr>], Reply api_error_msg]"
    by (simp add: handler_defs sample_defs)
  moreover have "trace (handle_message (world (api_raises AuthenticationError)) registered1 msg1)
     = [ApiCall [system_turn, \<lparr>role = ''user'', content = ahoy\<rparr>], Reply api_error_msg]"
    by (simp add: handler_defs sample_defs)
  ultimately show ?thesis by simp
qed

section \<open>Exceptions outside the completion error kinds\<close>

text \<open>
  Claim C9 says that every exception other than the three completion error kinds is
  swallowed without any reply, in particular an unexpected exception during response
  generation. \<open>generate_response\<close> has its own last clause, which returns an apology
  that \<open>handle_message\<close> then sends: when the completion answers without usage data,
  reading \<open>usage.total_tokens\<close> raises \<open>AttributeError\<close>, and the user is sent the
  unexpected-error apology.
\<close>

theorem unexpected_exception_counterexample:
  "trace (handle_message (world api_without_usage) registered1 msg1)
     = [ApiCall [system_turn, \<lparr>role = ''user'', content = ahoy\<rparr>], Reply unexpected_msg]"
  by (simp add: handler_defs sample_defs)

text \<open>
  Claim C9, amended. No exception leaves any handler. An exception raised outside
  response generation is swallowed without a reply: a message without sender leaves
  no effect and no change of state, and when the sending of a handler's reply raises
  (the greeting of \<open>/start\<close>, the acknowledgment or the error of \<open>/tokens\<close> and \<open>/clean\<close>,
  the out-of-tokens text, the completion's reply or the API-error apology), nothing is
  delivered and the handler sends nothing else. An exception raised during response
  generation that is not an instance of \<open>APIError\<close> (raised by the completion call, or
  by reading a response that has no choice or no usage data) is caught inside
  \<open>generate_response\<close>, which returns the fixed unexpected-error apology, and
  \<open>handle_message\<close> sends that apology as the reply.
\<close>

theorem handlers_catch_exceptions:
  "raised (dispatch env ucs ev) = None
   \<and> (from_user (message_of ev) = None \<longrightarrow>
        trace (dispatch env ucs ev) = [] \<and> state (dispatch env ucs ev) = ucs)
   \<and> (send env greeting_msg \<noteq> None \<longrightarrow> trace (start_command env ucs m) = [])
   \<and> (from_user m = Some uid
        \<and> send env (case ucs uid of None \<Rightarrow> user_not_found_msg | Some s \<Rightarrow> tokens_reset_msg)
            \<noteq> None
      \<longrightarrow> trace (tokens_command env ucs m) = [])
   \<and> (from_user m = Some uid
        \<and> send env (case ucs uid of None \<Rightarrow> user_not_found_msg | Some s \<Rightarrow> context_cleared_msg)
            \<noteq> None
      \<longrightarrow> trace (clean_command env ucs m) = [])
   \<and> (from_user m = Some uid \<and> (ucs uid = None \<or> ucs uid = Some s \<and> tokens s \<le> 0)
        \<and> send env out_of_tokens_msg \<noteq> None
      \<longrightarrow> trace (handle_message env ucs m) = [])
   \<and> (from_user m = Some uid \<and> ucs uid = Some s \<and> 0 < tokens s
        \<and> req = system_turn # ctxt s @ [\<lparr>role = ''user'', content = message_text m\<rparr>]
        \<and> (api env req = Inr resp \<and> choices resp = a # others \<and> usage resp = Some n
              \<and> send env a \<noteq> None
            \<or> api env req = Inl e \<and> issubclass e APIError \<and> send env api_error_msg \<noteq> None)
      \<longrightarrow> trace (handle_message env ucs m) = [ApiCall req])
   \<and> (from_user m = Some uid \<and> ucs uid = Some s \<and> 0 < tokens s
        \<and> req = system_turn # ctxt s @ [\<lparr>role = ''user'', content = message_text m\<rparr>]
        \<and> (api env req = Inl e \<and> \<not> issubclass e APIError
            \<or> api env req = Inr resp \<and> (choices resp = [] \<or> usage resp = None))
      \<longrightarrow> trace (handle_message env ucs m) =
            ApiCall req #
            (if send env unexpected_msg = None then [Reply unexpected_msg] else []))"
proof -
  have c1: "raised (dispatch env ucs ev) = None" by (rule dispatch_raised)
  have c2: "from_user (message_of ev) = None \<longrightarrow>
        trace (dispatch env ucs ev) = [] \<and> state (dispatch env ucs ev) = ucs"
    using dispatch_no_sender[of ev env ucs] by blast
  have c3: "send env greeting_msg \<noteq> None \<longrightarrow> trace (start_command env ucs m) = []"
    using start_command_refused[of env ucs m] by blast
  have c4: "from_user m = Some uid
        \<and> send env (case ucs uid of None \<Rightarrow> user_not_found_msg | Some s \<Rightarrow> tokens_reset_msg)
            \<noteq> None
      \<longrightarrow> trace (tokens_command env ucs m) = []"
    using tokens_command_refused[of m uid env ucs] by blast
  have c5: "from_user m = Some uid
        \<and> send env (case ucs uid of None \<Rightarrow> user_not_found_msg | Some s \<Rightarrow> context_cleared_msg)
            \<noteq> None
      \<longrightarrow> trace (clean_command env ucs m) = []"
    using clean_command_refused[of m uid env ucs] by blast
  have c6: "from_user m = Some uid \<and> (ucs uid = None \<or> ucs uid = Some s \<and> tokens s \<le> 0)
        \<and> send env out_of_tokens_msg \<noteq> None
      \<longrightarrow> trace (handle_message env ucs m) = []"
    using handle_message_blocked_refused[of m uid ucs s env] by blast
  have c7: "from_user m = Some uid \<and> ucs uid = Some s \<and> 0 < tokens s
        \<and> req = system_turn # ctxt s @ [\<lparr>role = ''user'', content = message_text m\<rparr>]
        \<and> (api env req = Inr resp \<and> choices resp = a # others \<and> usage resp = Some n
              \<and> send env a \<noteq> None
            \<or> api env req = Inl e \<and> issubclass e APIError \<and> send env api_error_msg \<noteq> None)
      \<longrightarrow> trace (handle_message env ucs m) = [ApiCall req]"
    using handle_message_reply_refused[of m uid ucs s req env resp a others n e] by blast
  have c8: "from_user m = Some uid \<and> ucs uid = Some s \<and> 0 < tokens s
        \<and> req = system_turn # ctxt s @ [\<lparr>role = ''user'', content = message_text m\<rparr>]
        \<and> (api env req = Inl e \<and> \<not> issubclass e APIError
            \<or> api env req = Inr resp \<and> (choices resp = [] \<or> usage resp = None))
      \<longrightarrow> trace (handle_message env ucs m) =
            ApiCall req #
            (if send env unexpected_msg = None then [Reply unexpected_msg] else [])"
    using handle_message_unexpected[of m uid ucs s req env e resp] by blast
  from c1 c2 c3 c4 c5 c6 c7 c8 show ?thesis by (intro conjI)
qed


theorem handlers_catch_exceptions_witness:
  "raised (dispatch offline_world registered1 (Text msg1)) = None
   \<and> from_user (message_of (Start anonymous_msg)) = None
   \<and> trace (dispatch offline_world registered1 (Start anonymous_msg)) = []
   \<and> state (dispatch offline_world registered1 (Start anonymous_msg)) = registered1
   \<and> send offline_world greeting_msg \<noteq> None
   \<and> trace (start_command offline_world Map.empty msg1) = []
   \<and> trace (tokens_command offline_world registered1 msg1) = []
   \<and> trace (clean_command offline_world Map.empty msg1) = []
   \<and> trace (handle_message offline_world Map.empty msg1) = []
   \<and> trace (handle_message (refusing_world (api_answers 30)) registered1 msg1)
       = [ApiCall [system_turn, \<lparr>role = ''user'', content = ahoy\<rparr>]]
   \<and> \<not> issubclass Exception APIError
   \<and> trace (handle_message (world (api_raises Exception)) returning1 msg1)
       = [ApiCall [system_turn, \<lparr>role = ''user'', content = ahoy\<rparr>,
                   \<lparr>role = ''assistant'', content = arrr\<rparr>,
                   \<lparr>role = ''user'', content = ahoy\<rparr>],
          Reply unexpected_msg]"
proof -
  let ?u = "\<lparr>role = ''user'', content = ahoy\<rparr>"
  let ?a = "\<lparr>role = ''assistant'', content = arrr\<rparr>"
  let ?s = "\<lparr>ctxt = [?u, ?a], tokens = 400\<rparr>"
  let ?we = "world (api_raises Exception)"
  let ?wr = "refusing_world (api_answers 30)"
  let ?resp = "\<lparr>choices = [arrr], usage = Some 30\<rparr>"
  have s0: "send offline_world x \<noteq> None" for x
    by (simp add: offline_world_def send_fails_def)
  have a1: "from_user (message_of (Start anonymous_msg)) = None"
    by (simp add: message_of_def anonymous_msg_def)
  have b1: "from_user msg1 = Some 1" by (simp add: msg1_def)
  have b2: "registered1 1 = Some new_session" by (simp add: registered1_def)
  have b3: "returning1 1 = Some ?s" by (simp add: returning1_def)
  have b4: "(Map.empty :: user_contexts) 1 = None" by simp
  have p1: "0 < tokens new_session" by (simp add: new_session_def)
  have p2: "0 < tokens ?s" by simp
  have r1: "[system_turn, ?u] = system_turn # ctxt new_session @
              [\<lparr>role = ''user'', content = message_text msg1\<rparr>]"
    by (simp add: new_session_def msg1_def)
  have r2: "[system_turn, ?u, ?a, ?u] = system_turn # ctxt ?s @
              [\<lparr>role = ''user'', content = message_text msg1\<rparr>]"
    by (simp add: msg1_def)
  have e1: "api ?wr [system_turn, ?u] = Inr ?resp \<and> choices ?resp = arrr # []
              \<and> usage ?resp = Some 30 \<and> send ?wr arrr \<noteq> None"
    by (simp add: refusing_world_def api_answers_def send_fails_def)
  have e2: "api ?we [system_turn, ?u, ?a, ?u] = Inl Exception \<and> \<not> issubclass Exception APIError"
    by (simp add: world_def api_raises_def issubclass_def)
  have e3: "send ?we unexpected_msg = None" by (simp add: world_def send_ok_def)
  from handlers_catch_exceptions[where env = offline_world and ucs = registered1
         and ev = "Text msg1"]
  have c1: "raised (dispatch offline_world registered1 (Text msg1)) = None"
    by blast
  from handlers_catch_exceptions[where env = offline_world and ucs = registered1
         and ev = "Start anonymous_msg"] a1
  have c2: "trace (dispatch offline_world registered1 (Start anonymous_msg)) = []
            \<and> state (dispatch offline_world registered1 (Start anonymous_msg)) = registered1"
    by blast
  from handlers_catch_exceptions[where env = offline_world and ucs = Map.empty
         and m = msg1 and uid = 1 and ev = "Text msg1"] b1 b4 s0
  have c3: "trace (start_command offline_world Map.empty msg1) = []"
    and c5: "trace (clean_command offline_world Map.empty msg1) = []"
    and c6: "trace (handle_message offline_world Map.empty msg1) = []"
    by simp_all
  from handlers_catch_exceptions[where env = offline_world and ucs = registered1
         and m = msg1 and uid = 1 and ev = "Text msg1"] b1 b2 s0
  have c4: "trace (tokens_command offline_world registered1 msg1) = []"
    by simp
  from handlers_catch_exceptions[where env = ?wr and ucs = registered1 and m = msg1
         and uid = 1 and s = new_session and req = "[system_turn, ?u]" and resp = ?resp
         and a = arrr and others = "[]" and n = 30 and ev = "Text msg1"]
       b1 b2 p1 r1 e1
  have c7: "trace (handle_message ?wr registered1 msg1) = [ApiCall [system_turn, ?u]]"
    by blast
  from handlers_catch_exceptions[where env = ?we and ucs = returning1 and m = msg1
         and uid = 1 and s = ?s and req = "[system_turn, ?u, ?a, ?u]" and e = Exception
         and ev = "Text msg1"]
       b1 b3 p2 r2 e2
  have "trace (handle_message ?we returning1 msg1) =
          ApiCall [system_turn, ?u, ?a, ?u] #
          (if send ?we unexpected_msg = None then [Reply unexpected_msg] else [])"
    by blast
  then have c8: "trace (handle_message ?we returning1 msg1) =
          [ApiCall [system_turn, ?u, ?a, ?u], Reply unexpected_msg]"
    by (simp add: e3)
  from a1 s0[of greeting_msg] e2 c1 c2 c3 c4 c5 c6 c7 c8 show ?thesis by blast
qed

end
